theory Spec2Isabelle
  imports Complex_Main "HOL-Library.Log_Nat"
begin

section \<open>Compartmental epidemic models: SEIR, SEIR with seasonality, SIR with demography\<close>

text \<open>
  The three Python classes \<^verbatim>\<open>SEIRModel\<close>, \<^verbatim>\<open>SEIRModelWithSeasonality\<close> and
  \<^verbatim>\<open>SIRWithDemography\<close> are embedded as records with one function per method.

  Conventions of the embedding:
  \<^item> Python floats are read as real numbers, so an arithmetic expression of the source
    denotes its exact value; rounding, overflow, infinities and NaN are not modelled. Where
    rounding decides a statement, the derivative function is embedded a second time over
    IEEE 754 doubles (last subsection of the definitions).
  \<^item> A state vector is a list of reals. The tuple unpacking \<^verbatim>\<open>S, E, I, R = y\<close> raises
    \<^verbatim>\<open>ValueError\<close> unless \<^verbatim>\<open>y\<close> has exactly that many entries; this is the \<open>Inl\<close> branch.
  \<^item> An instance attribute that has not been assigned yet is \<open>None\<close>; reading it raises
    \<^verbatim>\<open>AttributeError\<close>. Every plotting method starts by reading \<^verbatim>\<open>self.results\<close>.
  \<^item> A stored trajectory is the list of its rows, one row per grid point; \<^verbatim>\<open>.T\<close> is the
    list of its columns.
  \<^item> \<^verbatim>\<open>scipy.integrate.odeint\<close> and the plotting calls belong to external libraries. They
    are parameters of the methods that call them: an integrator maps a derivative function,
    an initial state and a time grid to a trajectory (or raises); of a plotting method the
    first statement, which reads and unpacks \<^verbatim>\<open>self.results\<close>, is embedded, and the library
    calls that follow it are the renderer, which receives the unpacked series (and the
    time grid in the methods that take one).
\<close>

subsection \<open>Exceptions and the external collaborators\<close>

datatype error = ValueError | AttributeError | IndexError | Exception string

type_synonym derivative = "real list \<Rightarrow> real \<Rightarrow> error + real list"

type_synonym integrator =
  "derivative \<Rightarrow> real list \<Rightarrow> real list \<Rightarrow> error + real list list"

type_synonym renderer = "real list list \<Rightarrow> error + unit"

type_synonym grid_renderer = "real list list \<Rightarrow> real list \<Rightarrow> error + unit"

subsection \<open>The classes\<close>

record SEIRModel =
  beta :: real
  gamma :: real
  sigma :: real
  initial_conditions :: "real list"
  results :: "real list list option"

record SEIRModelWithSeasonality = SEIRModel +
  beta1 :: real

record SIRWithDemography =
  beta :: real
  gamma :: real
  mu :: real
  initial_conditions :: "real list"
  results :: "real list list option"

subsection \<open>\<^verbatim>\<open>SEIRModel\<close>\<close>

definition SEIRModel_init :: "real \<Rightarrow> real \<Rightarrow> real \<Rightarrow> real list \<Rightarrow> error + SEIRModel" where
  "SEIRModel_init b g s ic =
     Inr \<lparr>SEIRModel.beta = b, SEIRModel.gamma = g, SEIRModel.sigma = s,
          SEIRModel.initial_conditions = ic, SEIRModel.results = None\<rparr>"

fun seir_equations :: "'a SEIRModel_scheme \<Rightarrow> real list \<Rightarrow> real \<Rightarrow> error + real list" where
  "seir_equations self [S, E, I, R] t =
     (let dSdt = - SEIRModel.beta self * S * I;
          dEdt = SEIRModel.beta self * S * I - SEIRModel.sigma self * E;
          dIdt = SEIRModel.sigma self * E - SEIRModel.gamma self * I;
          dRdt = SEIRModel.gamma self * I
      in Inr [dSdt, dEdt, dIdt, dRdt])"
| "seir_equations self _ t = Inl ValueError"

definition SEIRModel_simulate ::
  "integrator \<Rightarrow> 'a SEIRModel_scheme \<Rightarrow> real list \<Rightarrow> error + 'a SEIRModel_scheme" where
  "SEIRModel_simulate odeint self t =
     (case odeint (seir_equations self) (SEIRModel.initial_conditions self) t of
        Inl e \<Rightarrow> Inl e
      | Inr r \<Rightarrow> Inr (self\<lparr>SEIRModel.results := Some r\<rparr>))"

definition SEIRModel_get_results :: "'a SEIRModel_scheme \<Rightarrow> error + real list list" where
  "SEIRModel_get_results self =
     (case SEIRModel.results self of None \<Rightarrow> Inl AttributeError | Some r \<Rightarrow> Inr r)"

text \<open>The slice \<^verbatim>\<open>[::10]\<close>: the entries at positions 0, 10, 20 and so on.\<close>

fun every_tenth :: "'a list \<Rightarrow> 'a list" where
  "every_tenth [] = []"
| "every_tenth (x # xs) = x # every_tenth (drop 9 xs)"

definition SEIRModel_plot_results ::
  "grid_renderer \<Rightarrow> 'a SEIRModel_scheme \<Rightarrow> real list \<Rightarrow> error + unit" where
  "SEIRModel_plot_results render self t =
     (case SEIRModel_get_results self of
        Inl e \<Rightarrow> Inl e
      | Inr r \<Rightarrow>
          (case transpose r of
             [S, E, I, R] \<Rightarrow> render [S, E, I, R] t
           | _ \<Rightarrow> Inl ValueError))"

definition SEIRModel_plot_phase_portrait ::
  "renderer \<Rightarrow> 'a SEIRModel_scheme \<Rightarrow> error + unit" where
  "SEIRModel_plot_phase_portrait render self =
     (case SEIRModel_get_results self of
        Inl e \<Rightarrow> Inl e
      | Inr r \<Rightarrow>
          (case every_tenth (transpose r) of
             [S, I, _] \<Rightarrow> render [S, I]
           | _ \<Rightarrow> Inl ValueError))"

definition SEIRModel_plot_fourier_transform ::
  "grid_renderer \<Rightarrow> 'a SEIRModel_scheme \<Rightarrow> real list \<Rightarrow> error + unit" where
  "SEIRModel_plot_fourier_transform render self t =
     (case SEIRModel_get_results self of
        Inl e \<Rightarrow> Inl e
      | Inr r \<Rightarrow>
          (if 2 < length (transpose r) then render [transpose r ! 2] t else Inl IndexError))"

subsection \<open>\<^verbatim>\<open>SEIRModelWithSeasonality\<close>, a subclass of \<^verbatim>\<open>SEIRModel\<close>\<close>

definition SEIRModelWithSeasonality_init ::
  "real \<Rightarrow> real \<Rightarrow> real \<Rightarrow> real \<Rightarrow> real list \<Rightarrow> error + SEIRModelWithSeasonality" where
  "SEIRModelWithSeasonality_init b0 b1 g s ic =
     (case SEIRModel_init b0 g s ic of
        Inl e \<Rightarrow> Inl e
      | Inr base \<Rightarrow> Inr (SEIRModel.extend base (SEIRModelWithSeasonality.fields b1)))"

fun seir_seasonal_equations ::
  "'a SEIRModelWithSeasonality_scheme \<Rightarrow> real list \<Rightarrow> real \<Rightarrow> error + real list" where
  "seir_seasonal_equations self [S, E, I, R] t =
     (let beta_t = SEIRModel.beta self * (1 + beta1 self * cos (2 * pi * t / 365));
          dSdt = - beta_t * S * I;
          dEdt = beta_t * S * I - SEIRModel.sigma self * E;
          dIdt = SEIRModel.sigma self * E - SEIRModel.gamma self * I;
          dRdt = SEIRModel.gamma self * I
      in Inr [dSdt, dEdt, dIdt, dRdt])"
| "seir_seasonal_equations self _ t = Inl ValueError"

definition SEIRModelWithSeasonality_simulate ::
  "integrator \<Rightarrow> 'a SEIRModelWithSeasonality_scheme \<Rightarrow> real list
     \<Rightarrow> error + 'a SEIRModelWithSeasonality_scheme" where
  "SEIRModelWithSeasonality_simulate odeint self t =
     (case odeint (seir_seasonal_equations self) (SEIRModel.initial_conditions self) t of
        Inl e \<Rightarrow> Inl e
      | Inr r \<Rightarrow> Inr (self\<lparr>SEIRModel.results := Some r\<rparr>))"

definition SEIRModelWithSeasonality_plot_results ::
  "grid_renderer \<Rightarrow> 'a SEIRModelWithSeasonality_scheme \<Rightarrow> real list \<Rightarrow> error + unit" where
  "SEIRModelWithSeasonality_plot_results render self t =
     (case SEIRModel_get_results self of
        Inl e \<Rightarrow> Inl e
      | Inr r \<Rightarrow>
          (case transpose r of
             [S, E, I, R] \<Rightarrow> render [S, E, I, R] t
           | _ \<Rightarrow> Inl ValueError))"

subsection \<open>\<^verbatim>\<open>SIRWithDemography\<close>\<close>

definition SIRWithDemography_init ::
  "real \<Rightarrow> real \<Rightarrow> real \<Rightarrow> real list \<Rightarrow> error + SIRWithDemography" where
  "SIRWithDemography_init b g m ic =
     Inr \<lparr>SIRWithDemography.beta = b, SIRWithDemography.gamma = g, SIRWithDemography.mu = m,
          SIRWithDemography.initial_conditions = ic, SIRWithDemography.results = None\<rparr>"

fun sir_demography_equations ::
  "SIRWithDemography \<Rightarrow> real list \<Rightarrow> real \<Rightarrow> error + real list" where
  "sir_demography_equations self [S, I, R] t =
     (let dSdt = mu self - SIRWithDemography.beta self * S * I - mu self * S;
          dIdt = SIRWithDemography.beta self * S * I - SIRWithDemography.gamma self * I
                   - mu self * I;
          dRdt = SIRWithDemography.gamma self * I - mu self * R
      in Inr [dSdt, dIdt, dRdt])"
| "sir_demography_equations self _ t = Inl ValueError"

definition SIRWithDemography_simulate ::
  "integrator \<Rightarrow> SIRWithDemography \<Rightarrow> real list \<Rightarrow> error + SIRWithDemography" where
  "SIRWithDemography_simulate odeint self t =
     (case odeint (sir_demography_equations self)
                  (SIRWithDemography.initial_conditions self) t of
        Inl e \<Rightarrow> Inl e
      | Inr r \<Rightarrow> Inr (self\<lparr>SIRWithDemography.results := Some r\<rparr>))"

definition SIRWithDemography_get_results :: "SIRWithDemography \<Rightarrow> error + real list list" where
  "SIRWithDemography_get_results self =
     (case SIRWithDemography.results self of None \<Rightarrow> Inl AttributeError | Some r \<Rightarrow> Inr r)"

definition SIRWithDemography_plot_results ::
  "grid_renderer \<Rightarrow> SIRWithDemography \<Rightarrow> real list \<Rightarrow> error + unit" where
  "SIRWithDemography_plot_results render self t =
     (case SIRWithDemography_get_results self of
        Inl e \<Rightarrow> Inl e
      | Inr r \<Rightarrow>
          (case transpose r of
             [S, I, R] \<Rightarrow> render [S, I, R] t
           | _ \<Rightarrow> Inl ValueError))"

definition SIRWithDemography_plot_phase_portrait ::
  "renderer \<Rightarrow> SIRWithDemography \<Rightarrow> error + unit" where
  "SIRWithDemography_plot_phase_portrait render self =
     (case SIRWithDemography_get_results self of
        Inl e \<Rightarrow> Inl e
      | Inr r \<Rightarrow>
          (case transpose r of
             [S, I, _] \<Rightarrow> render [S, I]
           | _ \<Rightarrow> Inl ValueError))"

subsection \<open>Exact trajectories and stand-in integrators\<close>

text \<open>
  The initial-value problem that \<^verbatim>\<open>odeint\<close> is asked to solve. A curve \<open>y\<close> is a trajectory
  of a derivative function \<open>f\<close> on the time interval from \<open>a\<close> to \<open>b\<close> when at every time \<open>t\<close>
  of the interval the call \<open>f (y t) t\<close> returns a vector and each component of \<open>y\<close> has the
  corresponding entry as its derivative at \<open>t\<close> (one-sided at the two ends). Nothing is
  asked of \<open>y\<close> outside the interval.
\<close>

definition is_trajectory_on :: "derivative \<Rightarrow> (real \<Rightarrow> real list) \<Rightarrow> real \<Rightarrow> real \<Rightarrow> bool" where
  "is_trajectory_on f y a b \<longleftrightarrow>
     (\<forall>t \<in> {a..b}. \<exists>d. f (y t) t = Inr d \<and>
        (\<forall>i < length d. ((\<lambda>s. y s ! i) has_real_derivative d ! i) (at t within {a..b})))"

text \<open>
  The initial-value problem posed by a \<^verbatim>\<open>simulate\<close> call has a solution when some curve
  starts in the initial state at the first grid point and is a trajectory on the interval
  spanned by the grid. An integrator call is exact for a curve when the curve is such a
  solution and the call returns its values at the grid points, one row per grid point.
\<close>

definition has_trajectory :: "derivative \<Rightarrow> real list \<Rightarrow> real list \<Rightarrow> bool" where
  "has_trajectory f y0 grid \<longleftrightarrow>
     (\<exists>y. grid \<noteq> [] \<and> y (hd grid) = y0 \<and>
          is_trajectory_on f y (Min (set grid)) (Max (set grid)))"

definition integrates_exactly ::
  "integrator \<Rightarrow> derivative \<Rightarrow> real list \<Rightarrow> real list \<Rightarrow> (real \<Rightarrow> real list) \<Rightarrow> bool" where
  "integrates_exactly odeint f y0 grid y \<longleftrightarrow>
     grid \<noteq> [] \<and> y (hd grid) = y0 \<and>
     is_trajectory_on f y (Min (set grid)) (Max (set grid)) \<and>
     odeint f y0 grid = Inr (map y grid)"

text \<open>
  Two integrators to run \<^verbatim>\<open>simulate\<close> on concrete inputs. Both return one row per grid
  point, as \<^verbatim>\<open>odeint\<close> does: the first returns the values of a given curve, the second
  repeats the initial state in every row.
\<close>

definition samples :: "(real \<Rightarrow> real list) \<Rightarrow> integrator" where
  "samples y f y0 t = Inr (map y t)"

definition hold_initial_state :: integrator where
  "hold_initial_state f y0 t = Inr (map (\<lambda>_. y0) t)"

text \<open>
  Three instances with a trajectory in closed form, used to run the theorems on concrete
  inputs. The three systems have solutions in elementary functions only where the infection
  term beta * S * I vanishes: without transmission (beta = 0) the exposed and the infected
  of the base model decay while the susceptible stay; without susceptibles the same decay
  solves the seasonal system for every beta0 and beta1; without infected the system with
  demography moves recovered back to susceptible.
\<close>

definition seir_decay_model :: SEIRModel where
  "seir_decay_model =
     \<lparr>SEIRModel.beta = 0, SEIRModel.gamma = 2, SEIRModel.sigma = 1,
      SEIRModel.initial_conditions = [1/2, 1/4, 1/4, 0], SEIRModel.results = None\<rparr>"

definition seir_decay_curve :: "real \<Rightarrow> real list" where
  "seir_decay_curve t = [1/2, exp (- t) / 4, exp (- t) / 4, 1/2 - exp (- t) / 2]"

definition seasonal_decay_model :: SEIRModelWithSeasonality where
  "seasonal_decay_model =
     \<lparr>SEIRModel.beta = 3/10, SEIRModel.gamma = 2, SEIRModel.sigma = 1,
      SEIRModel.initial_conditions = [0, 1/2, 1/2, 0], SEIRModel.results = None,
      beta1 = 1/5\<rparr>"

definition seasonal_decay_curve :: "real \<Rightarrow> real list" where
  "seasonal_decay_curve t = [0, exp (- t) / 2, exp (- t) / 2, 1 - exp (- t)]"

definition sir_disease_free_model :: SIRWithDemography where
  "sir_disease_free_model =
     \<lparr>SIRWithDemography.beta = 3/10, SIRWithDemography.gamma = 1/10,
      SIRWithDemography.mu = 1,
      SIRWithDemography.initial_conditions = [1/2, 0, 1/2],
      SIRWithDemography.results = None\<rparr>"

definition sir_disease_free_curve :: "real \<Rightarrow> real list" where
  "sir_disease_free_curve t = [1 - exp (- t) / 2, 0, exp (- t) / 2]"

subsection \<open>The derivative function with demography in double precision\<close>

text \<open>
  A finite double is the rational number it denotes; \<open>None\<close> stands for the values that
  are not finite (the infinities and NaN). Addition, subtraction and multiplication return
  the exact result rounded to the nearest double, ties to even, with 53 bits of precision,
  gradual underflow below \<open>2 powi (- 1022)\<close> and overflow from \<open>2 ^ 1024\<close> on; with an operand
  that is not finite the result of each of the three operations is not finite either.
\<close>

type_synonym double = "rat option"

text \<open>The integer \<open>e\<close> with \<open>2 powi e \<le> \<bar>x\<bar> < 2 powi (e + 1)\<close>, for \<open>x \<noteq> 0\<close>.\<close>

definition binary_exponent :: "rat \<Rightarrow> int" where
  "binary_exponent x =
     (let (p, q) = quotient_of \<bar>x\<bar>; k = bitlen p - bitlen q
      in if 2 powi k \<le> \<bar>x\<bar> then k else k - 1)"

definition round_half_even :: "rat \<Rightarrow> int" where
  "round_half_even m =
     (let f = \<lfloor>m\<rfloor>; r = m - of_int f
      in if r < 1/2 then f else if 1/2 < r then f + 1 else if even f then f else f + 1)"

text \<open>
  Rounding to double: \<open>ulp\<close> is the spacing of the doubles around \<open>x\<close> and \<open>n\<close> the rounded
  multiple of it; the result overflows exactly when it reaches \<open>2 ^ 1024\<close>, which is when
  \<open>e\<close> exceeds 1023 or \<open>e\<close> is 1023 and \<open>n\<close> has been rounded up to \<open>2 ^ 53\<close>. A decimal literal
  of the source denotes the double nearest to it.
\<close>

definition to_double :: "rat \<Rightarrow> double" where
  "to_double x =
     (if x = 0 then Some 0
      else let e = max (binary_exponent x) (- 1022);
               ulp = 2 powi (e - 52);
               n = round_half_even (x / ulp)
           in if e < 1023 \<or> (e = 1023 \<and> \<bar>n\<bar> < 2 ^ 53) then Some (of_int n * ulp) else None)"

definition fadd :: "double \<Rightarrow> double \<Rightarrow> double" where
  "fadd x y = (case (x, y) of (Some a, Some b) \<Rightarrow> to_double (a + b) | _ \<Rightarrow> None)"

definition fsub :: "double \<Rightarrow> double \<Rightarrow> double" where
  "fsub x y = (case (x, y) of (Some a, Some b) \<Rightarrow> to_double (a - b) | _ \<Rightarrow> None)"

definition fmul :: "double \<Rightarrow> double \<Rightarrow> double" where
  "fmul x y = (case (x, y) of (Some a, Some b) \<Rightarrow> to_double (a * b) | _ \<Rightarrow> None)"

text \<open>
  \<^verbatim>\<open>SIRWithDemography.sir_demography_equations\<close> once more, with the operations of the
  source on doubles in the order in which Python evaluates them; the parameters \<open>b\<close>, \<open>g\<close>
  and \<open>m\<close> stand for the attributes \<^verbatim>\<open>self.beta\<close>, \<^verbatim>\<open>self.gamma\<close> and \<^verbatim>\<open>self.mu\<close>.
\<close>

fun double_sir_demography_equations ::
  "double \<Rightarrow> double \<Rightarrow> double \<Rightarrow> double list \<Rightarrow> double \<Rightarrow> error + double list" where
  "double_sir_demography_equations b g m [S, I, R] t =
     (let dSdt = fsub (fsub m (fmul (fmul b S) I)) (fmul m S);
          dIdt = fsub (fsub (fmul (fmul b S) I) (fmul g I)) (fmul m I);
          dRdt = fsub (fmul g I) (fmul m R)
      in Inr [dSdt, dIdt, dRdt])"
| "double_sir_demography_equations b g m _ t = Inl ValueError"

section \<open>Auxiliary facts\<close>

subsection \<open>Rounding to double on known values\<close>

text \<open>
  The doubles denoted by the literals 0.1, 0.3 and 0.01, and two ties: 1 + 2 powi (- 53)
  lies halfway between the neighbours 1 and 1 + 2 powi (- 52) and goes to 1, whose
  significand is even; 1 + 3 * 2 powi (- 53) lies halfway between 1 + 2 powi (- 52) and
  1 + 2 powi (- 51) and goes to the latter.
\<close>

lemma to_double_examples:
  "to_double (1/10) = Some (3602879701896397 / 36028797018963968)"
  "to_double (3/10) = Some (5404319552844595 / 18014398509481984)"
  "to_double (1/100) = Some (5764607523034235 / 576460752303423488)"
  "to_double 1 = Some 1"
  "to_double (1 + 2 powi (- 53)) = Some 1"
  "to_double (1 + 3 * 2 powi (- 53)) = Some (1 + 2 powi (- 51))"
  by code_simp+

subsection \<open>Scalar differential equations on an interval\<close>

lemma interval_mean_value:
  fixes g g' :: "real \<Rightarrow> real"
  assumes der: "\<And>x. x \<in> {a..b} \<Longrightarrow> (g has_real_derivative g' x) (at x within {a..b})"
    and s: "s \<in> {a..b}" and t: "t \<in> {a..b}" and less: "s < t"
  obtains z where "s < z" and "z < t" and "g t - g s = (t - s) * g' z"
proof -
  have "continuous_on {a..b} g"
    using der by (rule DERIV_continuous_on)
  moreover have sub: "{s..t} \<subseteq> {a..b}"
    using s t by auto
  ultimately have cont: "continuous_on {s..t} g"
    by (rule continuous_on_subset)
  have inner: "(g has_real_derivative g' x) (at x)" if "s < x" "x < t" for x
  proof -
    from that s t have "a < x" "x < b" by auto
    then have "at x within {a..b} = at x" by (rule at_within_Icc_at)
    moreover from \<open>a < x\<close> \<open>x < b\<close> have "x \<in> {a..b}" by simp
    ultimately show ?thesis using der [of x] by simp
  qed
  then have "g differentiable at x" if "s < x" "x < t" for x
    using that by (auto simp add: real_differentiable_def)
  with less cont obtain l z where z: "s < z" "z < t" and l: "(g has_real_derivative l) (at z)"
    and eq: "g t - g s = (t - s) * l"
    using MVT [of s t g] by blast
  from l inner [OF z] have "l = g' z" by (rule DERIV_unique)
  with z eq show ?thesis using that by blast
qed

lemma interval_constant:
  fixes g :: "real \<Rightarrow> real"
  assumes der: "\<And>x. x \<in> {a..b} \<Longrightarrow> (g has_real_derivative 0) (at x within {a..b})"
    and s: "s \<in> {a..b}" and t: "t \<in> {a..b}"
  shows "g t = g s"
proof -
  have step: "g v = g u" if "u \<in> {a..b}" "v \<in> {a..b}" "u < v" for u v
  proof -
    from der that obtain z where "g v - g u = (v - u) * 0"
      by (rule interval_mean_value [where g' = "\<lambda>_. 0"])
    then show ?thesis by simp
  qed
  consider "s < t" | "s = t" | "t < s" by linarith
  then show ?thesis
    using step [OF s t] step [OF t s] by cases simp_all
qed

lemma interval_nonincreasing:
  fixes g g' :: "real \<Rightarrow> real"
  assumes der: "\<And>x. x \<in> {a..b} \<Longrightarrow> (g has_real_derivative g' x) (at x within {a..b})"
    and sign: "\<And>x. x \<in> {a..b} \<Longrightarrow> g' x \<le> 0"
    and s: "s \<in> {a..b}" and t: "t \<in> {a..b}" and le: "s \<le> t"
  shows "g t \<le> g s"
proof (cases "s = t")
  case True
  then show ?thesis by simp
next
  case False
  with le have "s < t" by simp
  with der s t obtain z where z: "s < z" "z < t" and eq: "g t - g s = (t - s) * g' z"
    by (rule interval_mean_value)
  from z s t have "z \<in> {a..b}" by auto
  then have "g' z \<le> 0" by (rule sign)
  with \<open>s < t\<close> have "(t - s) * g' z \<le> 0"
    by (simp add: mult_le_0_iff)
  with eq show ?thesis by simp
qed

lemma interval_nondecreasing:
  fixes g g' :: "real \<Rightarrow> real"
  assumes der: "\<And>x. x \<in> {a..b} \<Longrightarrow> (g has_real_derivative g' x) (at x within {a..b})"
    and sign: "\<And>x. x \<in> {a..b} \<Longrightarrow> 0 \<le> g' x"
    and s: "s \<in> {a..b}" and t: "t \<in> {a..b}" and le: "s \<le> t"
  shows "g s \<le> g t"
proof (cases "s = t")
  case True
  then show ?thesis by simp
next
  case False
  with le have "s < t" by simp
  with der s t obtain z where z: "s < z" "z < t" and eq: "g t - g s = (t - s) * g' z"
    by (rule interval_mean_value)
  from z s t have "z \<in> {a..b}" by auto
  then have "0 \<le> g' z" by (rule sign)
  with \<open>s < t\<close> have "0 \<le> (t - s) * g' z" by simp
  with eq show ?thesis by simp
qed

lemma relax_to_one:
  fixes N :: "real \<Rightarrow> real"
  assumes der: "\<And>x. x \<in> {a..b} \<Longrightarrow> (N has_real_derivative m * (1 - N x)) (at x within {a..b})"
    and t0: "t0 \<in> {a..b}" and init: "N t0 = 1" and t: "t \<in> {a..b}"
  shows "N t = 1"
proof -
  define g where "g x = (N x - 1) * exp (m * x)" for x
  have "(g has_real_derivative 0) (at x within {a..b})" if "x \<in> {a..b}" for x
  proof -
    have "((\<lambda>x. (N x - 1) * exp (m * x)) has_real_derivative
            (m * (1 - N x)) * exp (m * x) + (N x - 1) * (exp (m * x) * m)) (at x within {a..b})"
      by (rule derivative_eq_intros der that refl | simp)+
    moreover have "(m * (1 - N x)) * exp (m * x) + (N x - 1) * (exp (m * x) * m) = 0"
      by (simp add: algebra_simps)
    ultimately show ?thesis unfolding g_def by simp
  qed
  then have "g t = g t0" using t0 t by (rule interval_constant)
  then show ?thesis by (simp add: g_def init)
qed

lemma linear_zero:
  fixes J c :: "real \<Rightarrow> real"
  assumes der: "\<And>x. x \<in> {a..b} \<Longrightarrow> (J has_real_derivative c x * J x) (at x within {a..b})"
    and cont: "continuous_on {a..b} c"
    and t0: "t0 \<in> {a..b}" and init: "J t0 = 0" and t: "t \<in> {a..b}"
  shows "J t = 0"
proof -
  have ne: "{a..b} \<noteq> {}" using t0 by auto
  from continuous_attains_sup [OF compact_Icc ne cont]
  obtain M where M: "\<And>x. x \<in> {a..b} \<Longrightarrow> c x \<le> M" by blast
  have "continuous_on {a..b} (\<lambda>x. - c x)"
    using cont by (intro continuous_intros)
  from continuous_attains_sup [OF compact_Icc ne this]
  obtain L where L: "\<And>x. x \<in> {a..b} \<Longrightarrow> - c x \<le> L" by blast
  have weighted: "((\<lambda>x. (J x)\<^sup>2 * exp (k * x)) has_real_derivative
            (2 * c x + k) * ((J x)\<^sup>2 * exp (k * x))) (at x within {a..b})"
    if "x \<in> {a..b}" for x k
  proof -
    have "((\<lambda>x. (J x)\<^sup>2 * exp (k * x)) has_real_derivative
            (2 * J x * (c x * J x)) * exp (k * x)
              + (J x)\<^sup>2 * (exp (k * x) * k)) (at x within {a..b})"
      by (rule derivative_eq_intros der that refl | simp)+
    moreover have "(2 * J x * (c x * J x)) * exp (k * x) + (J x)\<^sup>2 * (exp (k * x) * k)
          = (2 * c x + k) * ((J x)\<^sup>2 * exp (k * x))"
      by (simp add: algebra_simps power2_eq_square)
    ultimately show ?thesis by simp
  qed
  have "(J t)\<^sup>2 \<le> 0"
  proof (cases "t0 \<le> t")
    case True
    have "(J t)\<^sup>2 * exp (- 2 * M * t) \<le> (J t0)\<^sup>2 * exp (- 2 * M * t0)"
    proof (rule interval_nonincreasing
        [where g = "\<lambda>x. (J x)\<^sup>2 * exp (- 2 * M * x)"
           and g' = "\<lambda>x. (2 * c x + - 2 * M) * ((J x)\<^sup>2 * exp (- 2 * M * x))"
           and a = a and b = b])
      show "(2 * c x + - 2 * M) * ((J x)\<^sup>2 * exp (- 2 * M * x)) \<le> 0" if "x \<in> {a..b}" for x
      proof (rule mult_nonpos_nonneg)
        show "2 * c x + - 2 * M \<le> 0" using M [OF that] by simp
        show "0 \<le> (J x)\<^sup>2 * exp (- 2 * M * x)" by simp
      qed
      show "((\<lambda>x. (J x)\<^sup>2 * exp (- 2 * M * x)) has_real_derivative
              (2 * c x + - 2 * M) * ((J x)\<^sup>2 * exp (- 2 * M * x))) (at x within {a..b})"
        if "x \<in> {a..b}" for x
        using that by (rule weighted)
    qed (rule t0 t True)+
    then have "(J t)\<^sup>2 * exp (- 2 * M * t) \<le> 0" by (simp add: init)
    then show ?thesis by (simp add: mult_le_0_iff)
  next
    case False
    then have le: "t \<le> t0" by simp
    have "(J t)\<^sup>2 * exp (2 * L * t) \<le> (J t0)\<^sup>2 * exp (2 * L * t0)"
    proof (rule interval_nondecreasing
        [where g = "\<lambda>x. (J x)\<^sup>2 * exp (2 * L * x)"
           and g' = "\<lambda>x. (2 * c x + 2 * L) * ((J x)\<^sup>2 * exp (2 * L * x))"
           and a = a and b = b])
      show "0 \<le> (2 * c x + 2 * L) * ((J x)\<^sup>2 * exp (2 * L * x))" if "x \<in> {a..b}" for x
      proof (rule mult_nonneg_nonneg)
        show "0 \<le> 2 * c x + 2 * L" using L [OF that] by simp
        show "0 \<le> (J x)\<^sup>2 * exp (2 * L * x)" by simp
      qed
      show "((\<lambda>x. (J x)\<^sup>2 * exp (2 * L * x)) has_real_derivative
              (2 * c x + 2 * L) * ((J x)\<^sup>2 * exp (2 * L * x))) (at x within {a..b})"
        if "x \<in> {a..b}" for x
        using that by (rule weighted)
    qed (rule t0 t le)+
    then have "(J t)\<^sup>2 * exp (2 * L * t) \<le> 0" by (simp add: init)
    then show ?thesis by (simp add: mult_le_0_iff)
  qed
  then show ?thesis by simp
qed

subsection \<open>Results of the derivative functions\<close>

lemma seir_equations_Inr:
  assumes "seir_equations self v t = Inr d"
  obtains S E I R where "v = [S, E, I, R]"
    and "d = [- SEIRModel.beta self * S * I,
              SEIRModel.beta self * S * I - SEIRModel.sigma self * E,
              SEIRModel.sigma self * E - SEIRModel.gamma self * I,
              SEIRModel.gamma self * I]"
  using assms by (cases "(self, v, t)" rule: seir_equations.cases) (auto simp add: Let_def)

lemma seir_seasonal_equations_Inr:
  assumes "seir_seasonal_equations self v t = Inr d"
  obtains S E I R where "v = [S, E, I, R]"
    and "d = [- (SEIRModel.beta self * (1 + beta1 self * cos (2 * pi * t / 365))) * S * I,
              SEIRModel.beta self * (1 + beta1 self * cos (2 * pi * t / 365)) * S * I
                - SEIRModel.sigma self * E,
              SEIRModel.sigma self * E - SEIRModel.gamma self * I,
              SEIRModel.gamma self * I]"
  using assms
  by (cases "(self, v, t)" rule: seir_seasonal_equations.cases) (auto simp add: Let_def)

lemma sir_demography_equations_Inr:
  assumes "sir_demography_equations self v t = Inr d"
  obtains S I R where "v = [S, I, R]"
    and "d = [mu self - SIRWithDemography.beta self * S * I - mu self * S,
              SIRWithDemography.beta self * S * I - SIRWithDemography.gamma self * I
                - mu self * I,
              SIRWithDemography.gamma self * I - mu self * R]"
  using assms
  by (cases "(self, v, t)" rule: sir_demography_equations.cases) (auto simp add: Let_def)

subsection \<open>Trajectories\<close>

lemma is_trajectory_onD:
  assumes "is_trajectory_on f y a b" and "t \<in> {a..b}"
  shows "\<exists>d. f (y t) t = Inr d \<and>
    (\<forall>i < length d. ((\<lambda>s. y s ! i) has_real_derivative d ! i) (at t within {a..b}))"
  using assms unfolding is_trajectory_on_def by blast

lemma is_trajectory_onI:
  assumes "\<And>t. f (y t) t = Inr (d t)"
    and "\<And>t i. i < length (d t) \<Longrightarrow> ((\<lambda>s. y s ! i) has_real_derivative d t ! i) (at t)"
  shows "is_trajectory_on f y a b"
  unfolding is_trajectory_on_def
proof (intro ballI exI conjI allI impI)
  fix t i
  show "f (y t) t = Inr (d t)" by (rule assms(1))
  assume "i < length (d t)"
  then have "((\<lambda>s. y s ! i) has_real_derivative d t ! i) (at t)" by (rule assms(2))
  then show "((\<lambda>s. y s ! i) has_real_derivative d t ! i) (at t within {a..b})"
    by (rule has_field_derivative_at_within)
qed

lemma grid_point_in_span:
  fixes grid :: "real list"
  assumes "t \<in> set grid"
  shows "t \<in> {Min (set grid)..Max (set grid)}"
  using assms by simp

lemma seir_trajectory_sum:
  assumes traj: "is_trajectory_on (seir_equations self) y a b"
    and t0: "t0 \<in> {a..b}" and t: "t \<in> {a..b}"
  shows "sum_list (y t) = sum_list (y t0)"
proof -
  define N where "N s = y s ! 0 + y s ! 1 + y s ! 2 + y s ! 3" for s
  have at_point: "sum_list (y x) = N x \<and> (N has_real_derivative 0) (at x within {a..b})"
    if x: "x \<in> {a..b}" for x
  proof -
    obtain d where d: "seir_equations self (y x) x = Inr d"
      and c: "\<And>i. i < length d \<Longrightarrow> ((\<lambda>s. y s ! i) has_real_derivative d ! i) (at x within {a..b})"
      using is_trajectory_onD [OF traj x] by blast
    from d obtain S E I R where v: "y x = [S, E, I, R]"
      and dv: "d = [- SEIRModel.beta self * S * I,
              SEIRModel.beta self * S * I - SEIRModel.sigma self * E,
              SEIRModel.sigma self * E - SEIRModel.gamma self * I,
              SEIRModel.gamma self * I]"
      by (rule seir_equations_Inr)
    have "((\<lambda>s. y s ! 0 + y s ! 1 + y s ! 2 + y s ! 3) has_real_derivative
             d ! 0 + d ! 1 + d ! 2 + d ! 3) (at x within {a..b})"
      by (intro DERIV_add c) (simp_all add: dv)
    moreover have "d ! 0 + d ! 1 + d ! 2 + d ! 3 = 0" by (simp add: dv)
    ultimately show ?thesis by (simp add: N_def [abs_def] v)
  qed
  then have "N t = N t0"
    using t0 t by (intro interval_constant [where g = N and a = a and b = b]) auto
  with at_point [OF t] at_point [OF t0] show ?thesis by simp
qed

lemma seir_seasonal_trajectory_sum:
  assumes traj: "is_trajectory_on (seir_seasonal_equations self) y a b"
    and t0: "t0 \<in> {a..b}" and t: "t \<in> {a..b}"
  shows "sum_list (y t) = sum_list (y t0)"
proof -
  define N where "N s = y s ! 0 + y s ! 1 + y s ! 2 + y s ! 3" for s
  have at_point: "sum_list (y x) = N x \<and> (N has_real_derivative 0) (at x within {a..b})"
    if x: "x \<in> {a..b}" for x
  proof -
    obtain d where d: "seir_seasonal_equations self (y x) x = Inr d"
      and c: "\<And>i. i < length d \<Longrightarrow> ((\<lambda>s. y s ! i) has_real_derivative d ! i) (at x within {a..b})"
      using is_trajectory_onD [OF traj x] by blast
    from d obtain S E I R where v: "y x = [S, E, I, R]"
      and dv: "d = [- (SEIRModel.beta self * (1 + beta1 self * cos (2 * pi * x / 365))) * S * I,
              SEIRModel.beta self * (1 + beta1 self * cos (2 * pi * x / 365)) * S * I
                - SEIRModel.sigma self * E,
              SEIRModel.sigma self * E - SEIRModel.gamma self * I,
              SEIRModel.gamma self * I]"
      by (rule seir_seasonal_equations_Inr)
    have "((\<lambda>s. y s ! 0 + y s ! 1 + y s ! 2 + y s ! 3) has_real_derivative
             d ! 0 + d ! 1 + d ! 2 + d ! 3) (at x within {a..b})"
      by (intro DERIV_add c) (simp_all add: dv)
    moreover have "d ! 0 + d ! 1 + d ! 2 + d ! 3 = 0" by (simp add: dv)
    ultimately show ?thesis by (simp add: N_def [abs_def] v)
  qed
  then have "N t = N t0"
    using t0 t by (intro interval_constant [where g = N and a = a and b = b]) auto
  with at_point [OF t] at_point [OF t0] show ?thesis by simp
qed

lemma sir_trajectory_sum:
  assumes traj: "is_trajectory_on (sir_demography_equations self) y a b"
    and t0: "t0 \<in> {a..b}" and init: "sum_list (y t0) = 1" and t: "t \<in> {a..b}"
  shows "sum_list (y t) = 1"
proof -
  define N where "N s = y s ! 0 + y s ! 1 + y s ! 2" for s
  have at_point: "sum_list (y x) = N x \<and>
      (N has_real_derivative mu self * (1 - N x)) (at x within {a..b})"
    if x: "x \<in> {a..b}" for x
  proof -
    obtain d where d: "sir_demography_equations self (y x) x = Inr d"
      and c: "\<And>i. i < length d \<Longrightarrow> ((\<lambda>s. y s ! i) has_real_derivative d ! i) (at x within {a..b})"
      using is_trajectory_onD [OF traj x] by blast
    from d obtain S I R where v: "y x = [S, I, R]"
      and dv: "d = [mu self - SIRWithDemography.beta self * S * I - mu self * S,
              SIRWithDemography.beta self * S * I - SIRWithDemography.gamma self * I
                - mu self * I,
              SIRWithDemography.gamma self * I - mu self * R]"
      by (rule sir_demography_equations_Inr)
    have "((\<lambda>s. y s ! 0 + y s ! 1 + y s ! 2) has_real_derivative
             d ! 0 + d ! 1 + d ! 2) (at x within {a..b})"
      by (intro DERIV_add c) (simp_all add: dv)
    moreover have "d ! 0 + d ! 1 + d ! 2 = mu self * (1 - (S + I + R))"
      by (simp add: dv algebra_simps)
    ultimately show ?thesis by (simp add: N_def [abs_def] v)
  qed
  have "N t = 1"
  proof (rule relax_to_one [where N = N and m = "mu self" and a = a and b = b and ?t0.0 = t0])
    show "(N has_real_derivative mu self * (1 - N x)) (at x within {a..b})"
      if "x \<in> {a..b}" for x
      using at_point [OF that] by simp
    show "N t0 = 1" using at_point [OF t0] init by simp
  qed (rule t0 t)+
  with at_point [OF t] show ?thesis by simp
qed

lemma sir_trajectory_components:
  assumes traj: "is_trajectory_on (sir_demography_equations self) y a b" and x: "x \<in> {a..b}"
  shows "length (y x) = 3"
    and "((\<lambda>s. y s ! 0) has_real_derivative
           mu self - SIRWithDemography.beta self * (y x ! 0) * (y x ! 1) - mu self * (y x ! 0))
           (at x within {a..b})"
    and "((\<lambda>s. y s ! 1) has_real_derivative
           (SIRWithDemography.beta self * (y x ! 0) - SIRWithDemography.gamma self - mu self)
             * (y x ! 1)) (at x within {a..b})"
proof -
  obtain d where d: "sir_demography_equations self (y x) x = Inr d"
    and c: "\<And>i. i < length d \<Longrightarrow> ((\<lambda>s. y s ! i) has_real_derivative d ! i) (at x within {a..b})"
    using is_trajectory_onD [OF traj x] by blast
  from d obtain S I R where v: "y x = [S, I, R]"
    and dv: "d = [mu self - SIRWithDemography.beta self * S * I - mu self * S,
            SIRWithDemography.beta self * S * I - SIRWithDemography.gamma self * I
              - mu self * I,
            SIRWithDemography.gamma self * I - mu self * R]"
    by (rule sir_demography_equations_Inr)
  show "length (y x) = 3" by (simp add: v)
  from c [of 0] show "((\<lambda>s. y s ! 0) has_real_derivative
           mu self - SIRWithDemography.beta self * (y x ! 0) * (y x ! 1) - mu self * (y x ! 0))
           (at x within {a..b})"
    by (simp add: v dv)
  from c [of 1] show "((\<lambda>s. y s ! 1) has_real_derivative
           (SIRWithDemography.beta self * (y x ! 0) - SIRWithDemography.gamma self - mu self)
             * (y x ! 1)) (at x within {a..b})"
    by (simp add: v dv algebra_simps)
qed


text \<open>
  With beta = 1 and gamma = mu = 0 the system is S' = - S * I, I' = S * I. From the state
  [2, -1, 0] at time 0 the sum S + I stays 1, so I' = (1 - I) * I, whose solution
  1 / (1 - 2 * exp (- t)) has a pole at t = ln 2: no trajectory through that state reaches
  the time ln 2.
\<close>

lemma sir_blow_up:
  assumes traj: "is_trajectory_on (sir_demography_equations self) y a b"
    and par: "SIRWithDemography.beta self = 1" "SIRWithDemography.gamma self = 0" "mu self = 0"
    and zero: "0 \<in> {a..b}" and pole: "ln 2 \<in> {a..b}"
    and init: "y 0 = [2, - 1, 0]"
  shows False
proof -
  have dS: "((\<lambda>s. y s ! 0) has_real_derivative - (y x ! 0) * (y x ! 1)) (at x within {a..b})"
    if "x \<in> {a..b}" for x
    using sir_trajectory_components(2) [OF traj that] by (simp add: par)
  have dI: "((\<lambda>s. y s ! 1) has_real_derivative (y x ! 0) * (y x ! 1)) (at x within {a..b})"
    if "x \<in> {a..b}" for x
    using sir_trajectory_components(3) [OF traj that] by (simp add: par)
  have "((\<lambda>s. y s ! 0 + y s ! 1) has_real_derivative 0) (at x within {a..b})"
    if "x \<in> {a..b}" for x
  proof -
    have "((\<lambda>s. y s ! 0 + y s ! 1) has_real_derivative
            - (y x ! 0) * (y x ! 1) + (y x ! 0) * (y x ! 1)) (at x within {a..b})"
      by (intro DERIV_add dS dI that)
    then show ?thesis by simp
  qed
  then have "y x ! 0 + y x ! 1 = y 0 ! 0 + y 0 ! 1" if "x \<in> {a..b}" for x
    using zero that
    by (intro interval_constant [where g = "\<lambda>s. y s ! 0 + y s ! 1" and a = a and b = b]) auto
  then have S: "y x ! 0 = 1 - y x ! 1" if "x \<in> {a..b}" for x
    using that by (simp add: init algebra_simps)
  define h where "h s = y s ! 1 * (exp s - 2) - exp s" for s
  have "h (ln 2) = 0"
  proof (rule linear_zero
      [where J = h and c = "\<lambda>s. 1 - y s ! 1" and a = a and b = b and ?t0.0 = 0])
    show "(h has_real_derivative (1 - y x ! 1) * h x) (at x within {a..b})"
      if "x \<in> {a..b}" for x
    proof -
      have "((\<lambda>s. y s ! 1 * (exp s - 2) - exp s) has_real_derivative
              (y x ! 0) * (y x ! 1) * (exp x - 2) + y x ! 1 * exp x - exp x)
              (at x within {a..b})"
        by (rule derivative_eq_intros dI that refl | simp)+
      moreover have "(y x ! 0) * (y x ! 1) * (exp x - 2) + y x ! 1 * exp x - exp x
          = (1 - y x ! 1) * (y x ! 1 * (exp x - 2) - exp x)"
        by (simp add: S [OF that] algebra_simps)
      ultimately show ?thesis unfolding h_def by simp
    qed
    have "continuous_on {a..b} (\<lambda>s. y s ! 1)"
      by (rule DERIV_continuous_on) (rule dI)
    then show "continuous_on {a..b} (\<lambda>s. 1 - y s ! 1)"
      by (intro continuous_intros)
    show "h 0 = 0" by (simp add: h_def init)
  qed (rule zero pole)+
  then show False by (simp add: h_def)
qed

subsection \<open>Trajectories in closed form\<close>

lemma seir_decay_trajectory:
  "is_trajectory_on (seir_equations seir_decay_model) seir_decay_curve a b"
proof (rule is_trajectory_onI
    [where d = "\<lambda>t. [0, - exp (- t) / 4, - exp (- t) / 4, exp (- t) / 2]"])
  show "seir_equations seir_decay_model (seir_decay_curve t) t
          = Inr [0, - exp (- t) / 4, - exp (- t) / 4, exp (- t) / 2]" for t
    by (simp add: seir_decay_model_def seir_decay_curve_def)
  show "((\<lambda>s. seir_decay_curve s ! i)
           has_real_derivative [0, - exp (- t) / 4, - exp (- t) / 4, exp (- t) / 2] ! i) (at t)"
    if "i < length [0, - exp (- t) / 4, - exp (- t) / 4, exp (- t) / 2]" for t i
  proof -
    from that consider "i = 0" | "i = 1" | "i = 2" | "i = 3" by fastforce
    then show ?thesis
      by cases (auto simp add: seir_decay_curve_def intro!: derivative_eq_intros)
  qed
qed

lemma seasonal_decay_trajectory:
  "is_trajectory_on (seir_seasonal_equations seasonal_decay_model) seasonal_decay_curve a b"
proof (rule is_trajectory_onI
    [where d = "\<lambda>t. [0, - exp (- t) / 2, - exp (- t) / 2, exp (- t)]"])
  show "seir_seasonal_equations seasonal_decay_model (seasonal_decay_curve t) t
          = Inr [0, - exp (- t) / 2, - exp (- t) / 2, exp (- t)]" for t
    by (simp add: seasonal_decay_model_def seasonal_decay_curve_def)
  show "((\<lambda>s. seasonal_decay_curve s ! i)
           has_real_derivative [0, - exp (- t) / 2, - exp (- t) / 2, exp (- t)] ! i) (at t)"
    if "i < length [0, - exp (- t) / 2, - exp (- t) / 2, exp (- t)]" for t i
  proof -
    from that consider "i = 0" | "i = 1" | "i = 2" | "i = 3" by fastforce
    then show ?thesis
      by cases (auto simp add: seasonal_decay_curve_def intro!: derivative_eq_intros)
  qed
qed

lemma sir_disease_free_trajectory:
  "is_trajectory_on (sir_demography_equations sir_disease_free_model)
     sir_disease_free_curve a b"
proof (rule is_trajectory_onI [where d = "\<lambda>t. [exp (- t) / 2, 0, - exp (- t) / 2]"])
  show "sir_demography_equations sir_disease_free_model (sir_disease_free_curve t) t
          = Inr [exp (- t) / 2, 0, - exp (- t) / 2]" for t
    by (simp add: sir_disease_free_model_def sir_disease_free_curve_def)
  show "((\<lambda>s. sir_disease_free_curve s ! i) has_real_derivative
          [exp (- t) / 2, 0, - exp (- t) / 2] ! i) (at t)"
    if "i < length [exp (- t) / 2, 0, - exp (- t) / 2]" for t i
  proof -
    from that consider "i = 0" | "i = 1" | "i = 2" by fastforce
    then show ?thesis
      by cases (auto simp add: sir_disease_free_curve_def intro!: derivative_eq_intros)
  qed
qed

lemma samples_integrates_exactly:
  assumes "\<And>a b. is_trajectory_on f y a b" and "grid \<noteq> []" and "y (hd grid) = y0"
  shows "integrates_exactly (samples y) f y0 grid y"
  using assms by (simp add: integrates_exactly_def samples_def)

section \<open>The derivative functions\<close>

text \<open>
  Claim C1. For every state vector (S, I, R) and every time t, the derivative function of
  the SIR model with demography returns the vector
  [mu - beta*S*I - mu*S, beta*S*I - gamma*I - mu*I, gamma*I - mu*R], in this order, where
  beta, gamma and mu are the parameters the model was constructed with. The first conjunct
  reads the parameters from the fields of any instance, the second one builds the instance
  with the constructor.
\<close>

theorem sir_demography_equations_value:
  "sir_demography_equations self [S, I, R] t =
     Inr [mu self - SIRWithDemography.beta self * S * I - mu self * S,
          SIRWithDemography.beta self * S * I - SIRWithDemography.gamma self * I - mu self * I,
          SIRWithDemography.gamma self * I - mu self * R] \<and>
   (\<exists>fresh. SIRWithDemography_init b g m ic = Inr fresh \<and>
      sir_demography_equations fresh [S, I, R] t =
        Inr [m - b * S * I - m * S, b * S * I - g * I - m * I, g * I - m * R])"
  by (simp add: SIRWithDemography_init_def)

text \<open>
  Claim C2. For every state vector (S, E, I, R) and every time t, the derivative function of
  the base SEIR model returns the vector
  [-beta*S*I, beta*S*I - sigma*E, sigma*E - gamma*I, gamma*I], in this order, where beta,
  gamma and sigma are the parameters the model was constructed with.
\<close>

theorem seir_equations_value:
  "seir_equations self [S, E, I, R] t =
     Inr [- SEIRModel.beta self * S * I,
          SEIRModel.beta self * S * I - SEIRModel.sigma self * E,
          SEIRModel.sigma self * E - SEIRModel.gamma self * I,
          SEIRModel.gamma self * I] \<and>
   (\<exists>fresh. SEIRModel_init b g s ic = Inr fresh \<and>
      seir_equations fresh [S, E, I, R] t =
        Inr [- b * S * I, b * S * I - s * E, s * E - g * I, g * I])"
  by (simp add: SEIRModel_init_def)

text \<open>
  Claim C3. For every state vector (S, E, I, R) and every time t, the seasonal derivative
  function computes beta(t) = beta0 * (1 + beta1 * cos(2*pi*t/365)) and returns
  [-beta(t)*S*I, beta(t)*S*I - sigma*E, sigma*E - gamma*I, gamma*I]. Its last two entries,
  the ones built from gamma and sigma only, are those of the base SEIR derivative function
  on every input. The seasonal constructor stores beta0 (as beta), gamma, sigma and the
  initial conditions through the base constructor and adds the single field beta1: the new
  instance holds the five values it was given and no result, cutting it down to the base
  class gives exactly what the base constructor returns for beta0, gamma, sigma and the
  initial conditions, and the extension part holds beta1 and nothing else.
\<close>

theorem seir_seasonal_equations_value:
  "seir_seasonal_equations self [S, E, I, R] t =
     Inr [- (SEIRModel.beta self * (1 + beta1 self * cos (2 * pi * t / 365))) * S * I,
          SEIRModel.beta self * (1 + beta1 self * cos (2 * pi * t / 365)) * S * I
            - SEIRModel.sigma self * E,
          SEIRModel.sigma self * E - SEIRModel.gamma self * I,
          SEIRModel.gamma self * I] \<and>
   map_sum id (drop 2) (seir_seasonal_equations self y t) =
     map_sum id (drop 2) (seir_equations self y t) \<and>
   (\<exists>base fresh. SEIRModel_init b0 g s ic = Inr base \<and>
      SEIRModelWithSeasonality_init b0 b1 g s ic = Inr fresh \<and>
      SEIRModel.truncate fresh = base \<and>
      SEIRModel.more fresh = \<lparr>beta1 = b1\<rparr> \<and>
      SEIRModel.beta fresh = b0 \<and>
      SEIRModel.gamma fresh = g \<and>
      SEIRModel.sigma fresh = s \<and>
      SEIRModel.initial_conditions fresh = ic \<and>
      SEIRModel.results fresh = None \<and>
      beta1 fresh = b1 \<and>
      SEIRModel.beta base = b0 \<and>
      SEIRModel.gamma base = g \<and>
      SEIRModel.sigma base = s \<and>
      SEIRModel.initial_conditions base = ic \<and>
      seir_seasonal_equations fresh [S, E, I, R] t =
        Inr [- (b0 * (1 + b1 * cos (2 * pi * t / 365))) * S * I,
             b0 * (1 + b1 * cos (2 * pi * t / 365)) * S * I - s * E,
             s * E - g * I,
             g * I])"
proof (intro conjI)
  show "map_sum id (drop 2) (seir_seasonal_equations self y t) =
          map_sum id (drop 2) (seir_equations self y t)"
    by (cases "(self, y, t)" rule: seir_equations.cases) (simp_all add: Let_def)
qed (simp_all add: Let_def SEIRModelWithSeasonality_init_def SEIRModel_init_def
       SEIRModel.defs SEIRModelWithSeasonality.defs)

text \<open>
  Claim C10. The derivative functions of the SIR model with demography and of the base SEIR
  model are autonomous: on every input vector (also one that makes the call raise) the
  outcome at time t1 is the outcome at time t2. The seasonal derivative function is the only
  one of the three whose output depends on the time argument: there are an instance, a state
  and two times at which its outputs differ.
\<close>

theorem time_argument_dependence:
  "sir_demography_equations sir y3 t1 = sir_demography_equations sir y3 t2 \<and>
   seir_equations seir y4 t1 = seir_equations seir y4 t2 \<and>
   (\<exists>(seasonal :: SEIRModelWithSeasonality) y u1 u2.
      seir_seasonal_equations seasonal y u1 \<noteq> seir_seasonal_equations seasonal y u2)"
proof (intro conjI)
  show "sir_demography_equations sir y3 t1 = sir_demography_equations sir y3 t2"
    by (cases "(sir, y3, t1)" rule: sir_demography_equations.cases) simp_all
  show "seir_equations seir y4 t1 = seir_equations seir y4 t2"
    by (cases "(seir, y4, t1)" rule: seir_equations.cases) simp_all
  have "seir_seasonal_equations
          \<lparr>SEIRModel.beta = 1, SEIRModel.gamma = 1, SEIRModel.sigma = 1,
           SEIRModel.initial_conditions = [1, 0, 1, 0], SEIRModel.results = None,
           beta1 = 1\<rparr> [1, 0, 1, 0] 0
      \<noteq> seir_seasonal_equations
          \<lparr>SEIRModel.beta = 1, SEIRModel.gamma = 1, SEIRModel.sigma = 1,
           SEIRModel.initial_conditions = [1, 0, 1, 0], SEIRModel.results = None,
           beta1 = 1\<rparr> [1, 0, 1, 0] (365 / 2)"
    by (simp add: Let_def)
  then show "\<exists>(seasonal :: SEIRModelWithSeasonality) y u1 u2.
      seir_seasonal_equations seasonal y u1 \<noteq> seir_seasonal_equations seasonal y u2"
    by blast
qed

section \<open>Seasonality without amplitude\<close>

text \<open>
  Claim C5. With seasonal amplitude beta1 = 0, the seasonal derivative function returns on
  every state vector y and every time t what the base SEIR derivative function returns for
  beta = beta0 and the same gamma and sigma. Consequently \<^verbatim>\<open>simulate\<close> stores the same
  trajectory for both models when they start from the same initial conditions and are given
  the same time grid (and raises for one exactly when it raises for the other), whatever
  the integrator is.
\<close>

theorem seasonal_without_amplitude_is_base:
  fixes seasonal :: SEIRModelWithSeasonality and base :: SEIRModel
  assumes "beta1 seasonal = 0"
    and "SEIRModel.beta base = SEIRModel.beta seasonal"
    and "SEIRModel.gamma base = SEIRModel.gamma seasonal"
    and "SEIRModel.sigma base = SEIRModel.sigma seasonal"
    and "SEIRModel.initial_conditions base = SEIRModel.initial_conditions seasonal"
  shows "seir_seasonal_equations seasonal y t = seir_equations base y t \<and>
         map_sum id SEIRModel.results (SEIRModelWithSeasonality_simulate odeint seasonal grid) =
         map_sum id SEIRModel.results (SEIRModel_simulate odeint base grid)"
proof -
  have eq: "seir_seasonal_equations seasonal v u = seir_equations base v u" for v u
    using assms
    by (cases "(seasonal, v, u)" rule: seir_seasonal_equations.cases) (simp_all add: Let_def)
  then have "seir_seasonal_equations seasonal = seir_equations base"
    by (intro ext)
  then show ?thesis
    using assms(5) eq
    by (simp add: SEIRModelWithSeasonality_simulate_def SEIRModel_simulate_def
          split: sum.splits)
qed

text \<open>
  Witness for C5: the parameters of the repository's example with beta1 set to 0, evaluated
  at the state [1/2, 1/4, 1/4, 0] and time 100, and simulated on the grid [0, 1, 2].
\<close>

theorem seasonal_without_amplitude_is_base_witness:
  "beta1 \<lparr>SEIRModel.beta = 3/10, SEIRModel.gamma = 1/10, SEIRModel.sigma = 1/5,
      SEIRModel.initial_conditions = [99/100, 0, 1/100, 0], SEIRModel.results = None,
      beta1 = 0\<rparr> = 0 \<and>
   seir_seasonal_equations
     \<lparr>SEIRModel.beta = 3/10, SEIRModel.gamma = 1/10, SEIRModel.sigma = 1/5,
      SEIRModel.initial_conditions = [99/100, 0, 1/100, 0], SEIRModel.results = None,
      beta1 = 0\<rparr> [1/2, 1/4, 1/4, 0] 100 = Inr [- 3/80, - 1/80, 1/40, 1/40] \<and>
   seir_equations
     \<lparr>SEIRModel.beta = 3/10, SEIRModel.gamma = 1/10, SEIRModel.sigma = 1/5,
      SEIRModel.initial_conditions = [99/100, 0, 1/100, 0], SEIRModel.results = None\<rparr>
     [1/2, 1/4, 1/4, 0] 100 = Inr [- 3/80, - 1/80, 1/40, 1/40] \<and>
   map_sum id SEIRModel.results
     (SEIRModelWithSeasonality_simulate hold_initial_state
        \<lparr>SEIRModel.beta = 3/10, SEIRModel.gamma = 1/10, SEIRModel.sigma = 1/5,
         SEIRModel.initial_conditions = [99/100, 0, 1/100, 0], SEIRModel.results = None,
         beta1 = 0\<rparr> [0, 1, 2]) =
   map_sum id SEIRModel.results
     (SEIRModel_simulate hold_initial_state
        \<lparr>SEIRModel.beta = 3/10, SEIRModel.gamma = 1/10, SEIRModel.sigma = 1/5,
         SEIRModel.initial_conditions = [99/100, 0, 1/100, 0], SEIRModel.results = None\<rparr>
        [0, 1, 2])"
  using seasonal_without_amplitude_is_base
    [of "\<lparr>SEIRModel.beta = 3/10, SEIRModel.gamma = 1/10, SEIRModel.sigma = 1/5,
          SEIRModel.initial_conditions = [99/100, 0, 1/100, 0], SEIRModel.results = None,
          beta1 = 0\<rparr>"
        "\<lparr>SEIRModel.beta = 3/10, SEIRModel.gamma = 1/10, SEIRModel.sigma = 1/5,
          SEIRModel.initial_conditions = [99/100, 0, 1/100, 0], SEIRModel.results = None\<rparr>"
        "[1/2, 1/4, 1/4, 0]" 100 hold_initial_state "[0, 1, 2]"]
  by (simp add: Let_def)

section \<open>Construction\<close>

text \<open>
  Claim C4, as the code has it. No constructor validates anything and no constructor
  raises: whatever the rate constants and the initial conditions are (negative rates,
  negative fractions and fractions that do not sum to 1 included), each constructor returns
  an instance that stores the arguments unchanged and has no simulation result yet.
\<close>

theorem construction_stores_arguments_unchecked:
  "SEIRModel_init b g s ic =
     Inr \<lparr>SEIRModel.beta = b, SEIRModel.gamma = g, SEIRModel.sigma = s,
          SEIRModel.initial_conditions = ic, SEIRModel.results = None\<rparr> \<and>
   SEIRModelWithSeasonality_init b b1 g s ic =
     Inr \<lparr>SEIRModel.beta = b, SEIRModel.gamma = g, SEIRModel.sigma = s,
          SEIRModel.initial_conditions = ic, SEIRModel.results = None, beta1 = b1\<rparr> \<and>
   SIRWithDemography_init b g m ic =
     Inr \<lparr>SIRWithDemography.beta = b, SIRWithDemography.gamma = g, SIRWithDemography.mu = m,
          SIRWithDemography.initial_conditions = ic, SIRWithDemography.results = None\<rparr>"
  by (simp add: SEIRModel_init_def SEIRModelWithSeasonality_init_def SIRWithDemography_init_def
        SEIRModel.defs SEIRModelWithSeasonality.defs)

text \<open>
  Counterexample to C4 as stated: an SEIR model is constructed with the negative transmission
  rate -1, and an SIR model with demography is constructed with initial fractions
  [2, -1, 1/2], which has a negative entry and sums to 3/2; neither call raises.
\<close>

theorem construction_accepts_invalid_input:
  "SEIRModel_init (- 1) (1/10) (1/5) [99/100, 0, 1/100, 0] =
     Inr \<lparr>SEIRModel.beta = - 1, SEIRModel.gamma = 1/10, SEIRModel.sigma = 1/5,
          SEIRModel.initial_conditions = [99/100, 0, 1/100, 0], SEIRModel.results = None\<rparr> \<and>
   SIRWithDemography_init (3/10) (1/10) (1/100) [2, - 1, 1/2] =
     Inr \<lparr>SIRWithDemography.beta = 3/10, SIRWithDemography.gamma = 1/10,
          SIRWithDemography.mu = 1/100,
          SIRWithDemography.initial_conditions = [2, - 1, 1/2],
          SIRWithDemography.results = None\<rparr> \<and>
   sum_list [2, - 1, 1/2 :: real] = 3/2"
  by (simp add: SEIRModel_init_def SIRWithDemography_init_def)

section \<open>Simulation and the stored result\<close>

text \<open>
  Claim C8, as the code has it. \<^verbatim>\<open>simulate\<close> adds no check and no exception of its own to
  the integrator call: it raises exactly when the integrator call raises, with that same
  exception, and otherwise it returns the instance with the integrator's output stored as
  the result, whatever that output is. This holds for the three classes.
\<close>

theorem simulate_relays_integrator_outcome:
  "(SEIRModel_simulate odeint seir grid = Inl e) =
     (odeint (seir_equations seir) (SEIRModel.initial_conditions seir) grid = Inl e) \<and>
   (SEIRModel_simulate odeint seir grid = Inr seir') =
     (\<exists>r. odeint (seir_equations seir) (SEIRModel.initial_conditions seir) grid = Inr r \<and>
          seir' = seir\<lparr>SEIRModel.results := Some r\<rparr>) \<and>
   (SEIRModelWithSeasonality_simulate odeint seasonal grid = Inl e) =
     (odeint (seir_seasonal_equations seasonal) (SEIRModel.initial_conditions seasonal) grid
        = Inl e) \<and>
   (SEIRModelWithSeasonality_simulate odeint seasonal grid = Inr seasonal') =
     (\<exists>r. odeint (seir_seasonal_equations seasonal) (SEIRModel.initial_conditions seasonal)
            grid = Inr r \<and>
          seasonal' = seasonal\<lparr>SEIRModel.results := Some r\<rparr>) \<and>
   (SIRWithDemography_simulate odeint sir grid = Inl e) =
     (odeint (sir_demography_equations sir) (SIRWithDemography.initial_conditions sir) grid
        = Inl e) \<and>
   (SIRWithDemography_simulate odeint sir grid = Inr sir') =
     (\<exists>r. odeint (sir_demography_equations sir) (SIRWithDemography.initial_conditions sir)
            grid = Inr r \<and>
          sir' = sir\<lparr>SIRWithDemography.results := Some r\<rparr>)"
  by (auto simp add: SEIRModel_simulate_def SEIRModelWithSeasonality_simulate_def
        SIRWithDemography_simulate_def split: sum.splits)

text \<open>
  Counterexample to C8 as stated. The model with demography is constructed with beta = 1,
  gamma = 0, mu = 0 and the initial state [2, -1, 0] and simulated on the grid [0, 1, 2].
  The initial-value problem has no solution over this grid (the solution has a pole at
  ln 2), so no solver can meet its constraints up to the second grid point. The integrator
  of the source reports such a failure as a warning and returns its array, one row per grid
  point, of which the first row is the initial state; \<^verbatim>\<open>simulate\<close> stores the array and
  returns normally. Here the rows after the first repeat the initial state.
\<close>

theorem simulate_stores_rows_without_solution:
  "\<not> has_trajectory
       (sir_demography_equations
          \<lparr>SIRWithDemography.beta = 1, SIRWithDemography.gamma = 0, SIRWithDemography.mu = 0,
           SIRWithDemography.initial_conditions = [2, - 1, 0],
           SIRWithDemography.results = None\<rparr>)
       [2, - 1, 0] [0, 1, 2] \<and>
   SIRWithDemography_simulate hold_initial_state
     \<lparr>SIRWithDemography.beta = 1, SIRWithDemography.gamma = 0, SIRWithDemography.mu = 0,
      SIRWithDemography.initial_conditions = [2, - 1, 0],
      SIRWithDemography.results = None\<rparr> [0, 1, 2] =
   Inr \<lparr>SIRWithDemography.beta = 1, SIRWithDemography.gamma = 0, SIRWithDemography.mu = 0,
        SIRWithDemography.initial_conditions = [2, - 1, 0],
        SIRWithDemography.results = Some [[2, - 1, 0], [2, - 1, 0], [2, - 1, 0]]\<rparr>"
proof (intro conjI notI)
  assume "has_trajectory
       (sir_demography_equations
          \<lparr>SIRWithDemography.beta = 1, SIRWithDemography.gamma = 0, SIRWithDemography.mu = 0,
           SIRWithDemography.initial_conditions = [2, - 1, 0],
           SIRWithDemography.results = None\<rparr>)
       [2, - 1, 0] [0, 1, 2]"
  then obtain y where init: "y 0 = [2, - 1, 0]"
    and traj: "is_trajectory_on
       (sir_demography_equations
          \<lparr>SIRWithDemography.beta = 1, SIRWithDemography.gamma = 0, SIRWithDemography.mu = 0,
           SIRWithDemography.initial_conditions = [2, - 1, 0],
           SIRWithDemography.results = None\<rparr>)
       y (Min (set [0, 1, 2])) (Max (set [0, 1, 2]))"
    unfolding has_trajectory_def by auto
  have zero: "(0 :: real) \<in> {Min (set [0, 1, 2])..Max (set [0, 1, 2])}"
    by (rule grid_point_in_span) simp
  have two: "(2 :: real) \<in> {Min (set [0, 1, 2])..Max (set [0, 1, 2])}"
    by (rule grid_point_in_span) simp
  have "0 \<le> ln (2 :: real)" by simp
  moreover have "ln (2 :: real) \<le> 2"
    using ln_le_minus_one [of "2 :: real"] by simp
  ultimately have pole: "ln (2 :: real) \<in> {Min (set [0, 1, 2])..Max (set [0, 1, 2])}"
    using zero two by auto
  from traj _ _ _ zero pole init show False
    by (rule sir_blow_up) simp_all
next
  show "SIRWithDemography_simulate hold_initial_state
     \<lparr>SIRWithDemography.beta = 1, SIRWithDemography.gamma = 0, SIRWithDemography.mu = 0,
      SIRWithDemography.initial_conditions = [2, - 1, 0],
      SIRWithDemography.results = None\<rparr> [0, 1, 2] =
   Inr \<lparr>SIRWithDemography.beta = 1, SIRWithDemography.gamma = 0, SIRWithDemography.mu = 0,
        SIRWithDemography.initial_conditions = [2, - 1, 0],
        SIRWithDemography.results = Some [[2, - 1, 0], [2, - 1, 0], [2, - 1, 0]]\<rparr>"
    by (simp add: SIRWithDemography_simulate_def hold_initial_state_def)
qed

text \<open>
  Claim C9. Construction creates no stored result: on a freshly constructed instance of
  each class the attribute is absent, so reading it, directly or through any of the
  plotting methods (those inherited by the seasonal class included), raises
  \<^verbatim>\<open>AttributeError\<close>. A \<^verbatim>\<open>simulate\<close> call that returns has assigned the trajectory the
  integrator produced in this call: the instance it leaves behind is the old one with only
  the result replaced, so the parameters and the initial conditions are unchanged and the
  previous result, if any, is gone; reading the result then gives the new trajectory.
\<close>

theorem results_lifecycle:
  "(\<exists>fresh. SEIRModel_init b g s ic = Inr fresh \<and>
      SEIRModel.results fresh = None \<and>
      SEIRModel_get_results fresh = Inl AttributeError \<and>
      SEIRModel_plot_results render_t fresh grid = Inl AttributeError \<and>
      SEIRModel_plot_phase_portrait render fresh = Inl AttributeError \<and>
      SEIRModel_plot_fourier_transform render_t fresh grid = Inl AttributeError) \<and>
   (\<exists>fresh. SEIRModelWithSeasonality_init b b1 g s ic = Inr fresh \<and>
      SEIRModel.results fresh = None \<and>
      SEIRModel_get_results fresh = Inl AttributeError \<and>
      SEIRModelWithSeasonality_plot_results render_t fresh grid = Inl AttributeError \<and>
      SEIRModel_plot_phase_portrait render fresh = Inl AttributeError \<and>
      SEIRModel_plot_fourier_transform render_t fresh grid = Inl AttributeError) \<and>
   (\<exists>fresh. SIRWithDemography_init b g m ic = Inr fresh \<and>
      SIRWithDemography.results fresh = None \<and>
      SIRWithDemography_get_results fresh = Inl AttributeError \<and>
      SIRWithDemography_plot_results render_t fresh grid = Inl AttributeError \<and>
      SIRWithDemography_plot_phase_portrait render fresh = Inl AttributeError) \<and>
   (SEIRModel_simulate odeint seir grid = Inr seir' \<longrightarrow>
      (\<exists>r. odeint (seir_equations seir) (SEIRModel.initial_conditions seir) grid = Inr r \<and>
           seir' = seir\<lparr>SEIRModel.results := Some r\<rparr> \<and>
           SEIRModel_get_results seir' = Inr r)) \<and>
   (SEIRModelWithSeasonality_simulate odeint seasonal grid = Inr seasonal' \<longrightarrow>
      (\<exists>r. odeint (seir_seasonal_equations seasonal) (SEIRModel.initial_conditions seasonal)
             grid = Inr r \<and>
           seasonal' = seasonal\<lparr>SEIRModel.results := Some r\<rparr> \<and>
           SEIRModel_get_results seasonal' = Inr r)) \<and>
   (SIRWithDemography_simulate odeint sir grid = Inr sir' \<longrightarrow>
      (\<exists>r. odeint (sir_demography_equations sir) (SIRWithDemography.initial_conditions sir)
             grid = Inr r \<and>
           sir' = sir\<lparr>SIRWithDemography.results := Some r\<rparr> \<and>
           SIRWithDemography_get_results sir' = Inr r))"
proof (intro conjI impI)
  show "\<exists>fresh. SEIRModel_init b g s ic = Inr fresh \<and>
      SEIRModel.results fresh = None \<and>
      SEIRModel_get_results fresh = Inl AttributeError \<and>
      SEIRModel_plot_results render_t fresh grid = Inl AttributeError \<and>
      SEIRModel_plot_phase_portrait render fresh = Inl AttributeError \<and>
      SEIRModel_plot_fourier_transform render_t fresh grid = Inl AttributeError"
    by (simp add: SEIRModel_init_def SEIRModel_get_results_def SEIRModel_plot_results_def
          SEIRModel_plot_phase_portrait_def SEIRModel_plot_fourier_transform_def)
  show "\<exists>fresh. SEIRModelWithSeasonality_init b b1 g s ic = Inr fresh \<and>
      SEIRModel.results fresh = None \<and>
      SEIRModel_get_results fresh = Inl AttributeError \<and>
      SEIRModelWithSeasonality_plot_results render_t fresh grid = Inl AttributeError \<and>
      SEIRModel_plot_phase_portrait render fresh = Inl AttributeError \<and>
      SEIRModel_plot_fourier_transform render_t fresh grid = Inl AttributeError"
    by (simp add: SEIRModelWithSeasonality_init_def SEIRModel_init_def SEIRModel.defs
          SEIRModelWithSeasonality.defs SEIRModel_get_results_def
          SEIRModelWithSeasonality_plot_results_def SEIRModel_plot_phase_portrait_def
          SEIRModel_plot_fourier_transform_def)
  show "\<exists>fresh. SIRWithDemography_init b g m ic = Inr fresh \<and>
      SIRWithDemography.results fresh = None \<and>
      SIRWithDemography_get_results fresh = Inl AttributeError \<and>
      SIRWithDemography_plot_results render_t fresh grid = Inl AttributeError \<and>
      SIRWithDemography_plot_phase_portrait render fresh = Inl AttributeError"
    by (simp add: SIRWithDemography_init_def SIRWithDemography_get_results_def
          SIRWithDemography_plot_results_def SIRWithDemography_plot_phase_portrait_def)
  show "\<exists>r. odeint (seir_equations seir) (SEIRModel.initial_conditions seir) grid = Inr r \<and>
           seir' = seir\<lparr>SEIRModel.results := Some r\<rparr> \<and>
           SEIRModel_get_results seir' = Inr r"
    if "SEIRModel_simulate odeint seir grid = Inr seir'"
    using that
    by (auto simp add: SEIRModel_simulate_def SEIRModel_get_results_def split: sum.splits)
  show "\<exists>r. odeint (seir_seasonal_equations seasonal) (SEIRModel.initial_conditions seasonal)
             grid = Inr r \<and>
           seasonal' = seasonal\<lparr>SEIRModel.results := Some r\<rparr> \<and>
           SEIRModel_get_results seasonal' = Inr r"
    if "SEIRModelWithSeasonality_simulate odeint seasonal grid = Inr seasonal'"
    using that
    by (auto simp add: SEIRModelWithSeasonality_simulate_def SEIRModel_get_results_def
          split: sum.splits)
  show "\<exists>r. odeint (sir_demography_equations sir) (SIRWithDemography.initial_conditions sir)
             grid = Inr r \<and>
           sir' = sir\<lparr>SIRWithDemography.results := Some r\<rparr> \<and>
           SIRWithDemography_get_results sir' = Inr r"
    if "SIRWithDemography_simulate odeint sir grid = Inr sir'"
    using that
    by (auto simp add: SIRWithDemography_simulate_def SIRWithDemography_get_results_def
          split: sum.splits)
qed

text \<open>
  Witness for C9: each of the three models already holds an older one-row result and is
  simulated on the grid [0, 1] with an integrator that returns one row per grid point. The
  calls return, the stored result is the new two-row trajectory, and every other field is
  as before.
\<close>

theorem results_lifecycle_witness:
  "SEIRModel_simulate hold_initial_state
     \<lparr>SEIRModel.beta = 3/10, SEIRModel.gamma = 1/10, SEIRModel.sigma = 1/5,
      SEIRModel.initial_conditions = [99/100, 0, 1/100, 0],
      SEIRModel.results = Some [[1, 0, 0, 0]]\<rparr> [0, 1] =
   Inr \<lparr>SEIRModel.beta = 3/10, SEIRModel.gamma = 1/10, SEIRModel.sigma = 1/5,
        SEIRModel.initial_conditions = [99/100, 0, 1/100, 0],
        SEIRModel.results = Some [[99/100, 0, 1/100, 0], [99/100, 0, 1/100, 0]]\<rparr> \<and>
   SEIRModel_get_results
     \<lparr>SEIRModel.beta = 3/10, SEIRModel.gamma = 1/10, SEIRModel.sigma = 1/5,
      SEIRModel.initial_conditions = [99/100, 0, 1/100, 0],
      SEIRModel.results = Some [[99/100, 0, 1/100, 0], [99/100, 0, 1/100, 0]]\<rparr> =
   Inr [[99/100, 0, 1/100, 0], [99/100, 0, 1/100, 0]] \<and>
   SEIRModelWithSeasonality_simulate hold_initial_state
     \<lparr>SEIRModel.beta = 3/10, SEIRModel.gamma = 1/10, SEIRModel.sigma = 1/5,
      SEIRModel.initial_conditions = [99/100, 0, 1/100, 0],
      SEIRModel.results = Some [[1, 0, 0, 0]], beta1 = 1/5\<rparr> [0, 1] =
   Inr \<lparr>SEIRModel.beta = 3/10, SEIRModel.gamma = 1/10, SEIRModel.sigma = 1/5,
        SEIRModel.initial_conditions = [99/100, 0, 1/100, 0],
        SEIRModel.results = Some [[99/100, 0, 1/100, 0], [99/100, 0, 1/100, 0]],
        beta1 = 1/5\<rparr> \<and>
   SIRWithDemography_simulate hold_initial_state
     \<lparr>SIRWithDemography.beta = 3/10, SIRWithDemography.gamma = 1/10,
      SIRWithDemography.mu = 1/100,
      SIRWithDemography.initial_conditions = [99/100, 1/100, 0],
      SIRWithDemography.results = Some [[1, 0, 0]]\<rparr> [0, 1] =
   Inr \<lparr>SIRWithDemography.beta = 3/10, SIRWithDemography.gamma = 1/10,
        SIRWithDemography.mu = 1/100,
        SIRWithDemography.initial_conditions = [99/100, 1/100, 0],
        SIRWithDemography.results = Some [[99/100, 1/100, 0], [99/100, 1/100, 0]]\<rparr> \<and>
   SIRWithDemography_get_results
     \<lparr>SIRWithDemography.beta = 3/10, SIRWithDemography.gamma = 1/10,
      SIRWithDemography.mu = 1/100,
      SIRWithDemography.initial_conditions = [99/100, 1/100, 0],
      SIRWithDemography.results = Some [[99/100, 1/100, 0], [99/100, 1/100, 0]]\<rparr> =
   Inr [[99/100, 1/100, 0], [99/100, 1/100, 0]]"
  using results_lifecycle
    [where odeint = hold_initial_state and grid = "[0, 1]"
       and seir = "\<lparr>SEIRModel.beta = 3/10, SEIRModel.gamma = 1/10, SEIRModel.sigma = 1/5,
          SEIRModel.initial_conditions = [99/100, 0, 1/100, 0],
          SEIRModel.results = Some [[1, 0, 0, 0]]\<rparr>"
       and seir' = "\<lparr>SEIRModel.beta = 3/10, SEIRModel.gamma = 1/10, SEIRModel.sigma = 1/5,
          SEIRModel.initial_conditions = [99/100, 0, 1/100, 0],
          SEIRModel.results = Some [[99/100, 0, 1/100, 0], [99/100, 0, 1/100, 0]]\<rparr>"
       and seasonal = "\<lparr>SEIRModel.beta = 3/10, SEIRModel.gamma = 1/10, SEIRModel.sigma = 1/5,
          SEIRModel.initial_conditions = [99/100, 0, 1/100, 0],
          SEIRModel.results = Some [[1, 0, 0, 0]], beta1 = 1/5\<rparr>"
       and seasonal' = "\<lparr>SEIRModel.beta = 3/10, SEIRModel.gamma = 1/10, SEIRModel.sigma = 1/5,
          SEIRModel.initial_conditions = [99/100, 0, 1/100, 0],
          SEIRModel.results = Some [[99/100, 0, 1/100, 0], [99/100, 0, 1/100, 0]],
          beta1 = 1/5\<rparr>"
       and sir = "\<lparr>SIRWithDemography.beta = 3/10, SIRWithDemography.gamma = 1/10,
          SIRWithDemography.mu = 1/100,
          SIRWithDemography.initial_conditions = [99/100, 1/100, 0],
          SIRWithDemography.results = Some [[1, 0, 0]]\<rparr>"
       and sir' = "\<lparr>SIRWithDemography.beta = 3/10, SIRWithDemography.gamma = 1/10,
          SIRWithDemography.mu = 1/100,
          SIRWithDemography.initial_conditions = [99/100, 1/100, 0],
          SIRWithDemography.results = Some [[99/100, 1/100, 0], [99/100, 1/100, 0]]\<rparr>"]
  by (simp add: SEIRModel_simulate_def SEIRModelWithSeasonality_simulate_def
        SIRWithDemography_simulate_def hold_initial_state_def SEIRModel_get_results_def
        SIRWithDemography_get_results_def)

section \<open>Invariants of the dynamics\<close>

text \<open>
  What an exact integrator call leaves behind: \<^verbatim>\<open>simulate\<close> returns and stores the values
  of the curve at the grid points.
\<close>

lemma integrates_exactly_span:
  assumes "integrates_exactly odeint f y0 grid y"
  shows "is_trajectory_on f y (Min (set grid)) (Max (set grid))"
    and "hd grid \<in> {Min (set grid)..Max (set grid)}"
    and "y (hd grid) = y0"
    and "odeint f y0 grid = Inr (map y grid)"
  using assms unfolding integrates_exactly_def by simp_all

text \<open>
  Claim C6, over the reals. Every derivative function conserves the total population when
  the returned expressions are taken at their exact values: for every SEIR state
  (S, E, I, R) the four entries returned by the base and by the seasonal derivative function
  sum to 0, and for every SIR state (S, I, R) with S + I + R = 1 the three entries returned
  by the derivative function with demography sum to 0. Hence a trajectory of any of the
  three systems on a time interval that sums to 1 at one time of the interval sums to 1
  at every time of it, and a \<^verbatim>\<open>simulate\<close> call whose integrator call is exact, started from
  initial conditions that sum to 1, returns and stores one row per grid point, each row
  summing to 1.
\<close>

theorem total_population_conserved:
  "(\<exists>d. seir_equations seir [S, E, I, R] t = Inr d \<and> sum_list d = 0) \<and>
   (\<exists>d. seir_seasonal_equations seasonal [S, E, I, R] t = Inr d \<and> sum_list d = 0) \<and>
   (S' + I' + R' = 1 \<longrightarrow>
      (\<exists>d. sir_demography_equations sir [S', I', R'] t = Inr d \<and> sum_list d = 0)) \<and>
   (is_trajectory_on (seir_equations seir) y a b \<and> t0 \<in> {a..b} \<and> sum_list (y t0) = 1 \<and>
      t1 \<in> {a..b} \<longrightarrow> sum_list (y t1) = 1) \<and>
   (is_trajectory_on (seir_seasonal_equations seasonal) ys a b \<and> t0 \<in> {a..b} \<and>
      sum_list (ys t0) = 1 \<and> t1 \<in> {a..b} \<longrightarrow> sum_list (ys t1) = 1) \<and>
   (is_trajectory_on (sir_demography_equations sir) yd a b \<and> t0 \<in> {a..b} \<and>
      sum_list (yd t0) = 1 \<and> t1 \<in> {a..b} \<longrightarrow> sum_list (yd t1) = 1) \<and>
   (integrates_exactly odeint (seir_equations seir) (SEIRModel.initial_conditions seir) grid y \<and>
      sum_list (SEIRModel.initial_conditions seir) = 1 \<longrightarrow>
      (\<exists>seir' rows. SEIRModel_simulate odeint seir grid = Inr seir' \<and>
         SEIRModel.results seir' = Some rows \<and> length rows = length grid \<and>
         (\<forall>row \<in> set rows. sum_list row = 1))) \<and>
   (integrates_exactly odeint (seir_seasonal_equations seasonal)
        (SEIRModel.initial_conditions seasonal) grid ys \<and>
      sum_list (SEIRModel.initial_conditions seasonal) = 1 \<longrightarrow>
      (\<exists>seasonal' rows. SEIRModelWithSeasonality_simulate odeint seasonal grid = Inr seasonal' \<and>
         SEIRModel.results seasonal' = Some rows \<and> length rows = length grid \<and>
         (\<forall>row \<in> set rows. sum_list row = 1))) \<and>
   (integrates_exactly odeint (sir_demography_equations sir)
        (SIRWithDemography.initial_conditions sir) grid yd \<and>
      sum_list (SIRWithDemography.initial_conditions sir) = 1 \<longrightarrow>
      (\<exists>sir' rows. SIRWithDemography_simulate odeint sir grid = Inr sir' \<and>
         SIRWithDemography.results sir' = Some rows \<and> length rows = length grid \<and>
         (\<forall>row \<in> set rows. sum_list row = 1)))"
proof (intro conjI impI)
  show "\<exists>d. seir_equations seir [S, E, I, R] t = Inr d \<and> sum_list d = 0"
    by (simp add: Let_def)
  show "\<exists>d. seir_seasonal_equations seasonal [S, E, I, R] t = Inr d \<and> sum_list d = 0"
    by (simp add: Let_def)
  show "\<exists>d. sir_demography_equations sir [S', I', R'] t = Inr d \<and> sum_list d = 0"
    if "S' + I' + R' = 1"
  proof -
    have "mu sir - SIRWithDemography.beta sir * S' * I' - mu sir * S'
            + (SIRWithDemography.beta sir * S' * I' - SIRWithDemography.gamma sir * I'
                 - mu sir * I'
               + (SIRWithDemography.gamma sir * I' - mu sir * R'))
          = mu sir * (1 - (S' + I' + R'))"
      by (simp add: algebra_simps)
    also have "\<dots> = 0" using that by simp
    finally show ?thesis by (simp add: Let_def)
  qed
  show "sum_list (y t1) = 1"
    if "is_trajectory_on (seir_equations seir) y a b \<and> t0 \<in> {a..b} \<and> sum_list (y t0) = 1 \<and>
      t1 \<in> {a..b}"
    using that seir_trajectory_sum [of seir y a b t0 t1] by simp
  show "sum_list (ys t1) = 1"
    if "is_trajectory_on (seir_seasonal_equations seasonal) ys a b \<and> t0 \<in> {a..b} \<and>
      sum_list (ys t0) = 1 \<and> t1 \<in> {a..b}"
    using that seir_seasonal_trajectory_sum [of seasonal ys a b t0 t1] by simp
  show "sum_list (yd t1) = 1"
    if "is_trajectory_on (sir_demography_equations sir) yd a b \<and> t0 \<in> {a..b} \<and>
      sum_list (yd t0) = 1 \<and> t1 \<in> {a..b}"
    using that sir_trajectory_sum [of sir yd a b t0 t1] by simp
  show "\<exists>seir' rows. SEIRModel_simulate odeint seir grid = Inr seir' \<and>
         SEIRModel.results seir' = Some rows \<and> length rows = length grid \<and>
         (\<forall>row \<in> set rows. sum_list row = 1)"
    if h: "integrates_exactly odeint (seir_equations seir) (SEIRModel.initial_conditions seir)
          grid y \<and> sum_list (SEIRModel.initial_conditions seir) = 1"
  proof -
    from h have ex: "integrates_exactly odeint (seir_equations seir)
        (SEIRModel.initial_conditions seir) grid y"
      and one: "sum_list (SEIRModel.initial_conditions seir) = 1" by simp_all
    have "sum_list (y u) = 1" if "u \<in> set grid" for u
      using seir_trajectory_sum [OF integrates_exactly_span(1, 2) [OF ex]
          grid_point_in_span [OF that]] integrates_exactly_span(3) [OF ex] one
      by simp
    then show ?thesis
      using integrates_exactly_span(4) [OF ex] by (simp add: SEIRModel_simulate_def)
  qed
  show "\<exists>seasonal' rows. SEIRModelWithSeasonality_simulate odeint seasonal grid = Inr seasonal' \<and>
         SEIRModel.results seasonal' = Some rows \<and> length rows = length grid \<and>
         (\<forall>row \<in> set rows. sum_list row = 1)"
    if h: "integrates_exactly odeint (seir_seasonal_equations seasonal)
        (SEIRModel.initial_conditions seasonal) grid ys \<and>
      sum_list (SEIRModel.initial_conditions seasonal) = 1"
  proof -
    from h have ex: "integrates_exactly odeint (seir_seasonal_equations seasonal)
        (SEIRModel.initial_conditions seasonal) grid ys"
      and one: "sum_list (SEIRModel.initial_conditions seasonal) = 1" by simp_all
    have "sum_list (ys u) = 1" if "u \<in> set grid" for u
      using seir_seasonal_trajectory_sum [OF integrates_exactly_span(1, 2) [OF ex]
          grid_point_in_span [OF that]] integrates_exactly_span(3) [OF ex] one
      by simp
    then show ?thesis
      using integrates_exactly_span(4) [OF ex]
      by (simp add: SEIRModelWithSeasonality_simulate_def)
  qed
  show "\<exists>sir' rows. SIRWithDemography_simulate odeint sir grid = Inr sir' \<and>
         SIRWithDemography.results sir' = Some rows \<and> length rows = length grid \<and>
         (\<forall>row \<in> set rows. sum_list row = 1)"
    if h: "integrates_exactly odeint (sir_demography_equations sir)
        (SIRWithDemography.initial_conditions sir) grid yd \<and>
      sum_list (SIRWithDemography.initial_conditions sir) = 1"
  proof -
    from h have ex: "integrates_exactly odeint (sir_demography_equations sir)
        (SIRWithDemography.initial_conditions sir) grid yd"
      and one: "sum_list (SIRWithDemography.initial_conditions sir) = 1" by simp_all
    have "sum_list (yd u) = 1" if "u \<in> set grid" for u
    proof (rule sir_trajectory_sum [OF integrates_exactly_span(1, 2) [OF ex]])
      show "sum_list (yd (hd grid)) = 1"
        using integrates_exactly_span(3) [OF ex] one by simp
      show "u \<in> {Min (set grid)..Max (set grid)}"
        using that by (rule grid_point_in_span)
    qed
    then show ?thesis
      using integrates_exactly_span(4) [OF ex] by (simp add: SIRWithDemography_simulate_def)
  qed
qed

text \<open>
  Witness for C6: the SIR state [99/100, 1/100, 0] of the repository's example for the
  derivative, and for the trajectories the three instances with a solution in closed form,
  none of them constant, on the interval from 0 to 2 and on the grid [0, 1, 2]. The
  integrator returns the values of the solution at the grid points.
\<close>

theorem total_population_conserved_witness:
  "(99/100 :: real) + 1/100 + 0 = 1 \<and>
   is_trajectory_on (seir_equations seir_decay_model) seir_decay_curve 0 2 \<and>
   is_trajectory_on (seir_seasonal_equations seasonal_decay_model) seasonal_decay_curve 0 2 \<and>
   is_trajectory_on (sir_demography_equations sir_disease_free_model)
     sir_disease_free_curve 0 2 \<and>
   (0 :: real) \<in> {0..2} \<and> (2 :: real) \<in> {0..2} \<and>
   sum_list (seir_decay_curve 0) = 1 \<and>
   sum_list (seasonal_decay_curve 0) = 1 \<and>
   sum_list (sir_disease_free_curve 0) = 1 \<and>
   integrates_exactly (samples seir_decay_curve) (seir_equations seir_decay_model)
     (SEIRModel.initial_conditions seir_decay_model) [0, 1, 2] seir_decay_curve \<and>
   integrates_exactly (samples seasonal_decay_curve)
     (seir_seasonal_equations seasonal_decay_model)
     (SEIRModel.initial_conditions seasonal_decay_model) [0, 1, 2] seasonal_decay_curve \<and>
   integrates_exactly (samples sir_disease_free_curve)
     (sir_demography_equations sir_disease_free_model)
     (SIRWithDemography.initial_conditions sir_disease_free_model) [0, 1, 2]
     sir_disease_free_curve \<and>
   sum_list (SEIRModel.initial_conditions seir_decay_model) = 1 \<and>
   sum_list (SEIRModel.initial_conditions seasonal_decay_model) = 1 \<and>
   sum_list (SIRWithDemography.initial_conditions sir_disease_free_model) = 1 \<and>
   (\<exists>d. sir_demography_equations sir_disease_free_model [99/100, 1/100, 0] 7 = Inr d \<and>
        sum_list d = 0) \<and>
   sum_list (seir_decay_curve 2) = 1 \<and>
   sum_list (seasonal_decay_curve 2) = 1 \<and>
   sum_list (sir_disease_free_curve 2) = 1 \<and>
   (\<exists>seir' rows. SEIRModel_simulate (samples seir_decay_curve) seir_decay_model [0, 1, 2]
        = Inr seir' \<and>
      SEIRModel.results seir' = Some rows \<and> length rows = length [0, 1, 2 :: real] \<and>
      (\<forall>row \<in> set rows. sum_list row = 1)) \<and>
   (\<exists>seasonal' rows.
      SEIRModelWithSeasonality_simulate (samples seasonal_decay_curve) seasonal_decay_model
        [0, 1, 2] = Inr seasonal' \<and>
      SEIRModel.results seasonal' = Some rows \<and> length rows = length [0, 1, 2 :: real] \<and>
      (\<forall>row \<in> set rows. sum_list row = 1)) \<and>
   (\<exists>sir' rows.
      SIRWithDemography_simulate (samples sir_disease_free_curve) sir_disease_free_model
        [0, 1, 2] = Inr sir' \<and>
      SIRWithDemography.results sir' = Some rows \<and> length rows = length [0, 1, 2 :: real] \<and>
      (\<forall>row \<in> set rows. sum_list row = 1))"
proof -
  note T1 = seir_decay_trajectory and T2 = seasonal_decay_trajectory
    and T3 = sir_disease_free_trajectory
  have s1: "sum_list (seir_decay_curve 0) = 1"
    and s2: "sum_list (seasonal_decay_curve 0) = 1"
    and s3: "sum_list (sir_disease_free_curve 0) = 1"
    by (simp_all add: seir_decay_curve_def seasonal_decay_curve_def
          sir_disease_free_curve_def)
  have i1: "sum_list (SEIRModel.initial_conditions seir_decay_model) = 1"
    and i2: "sum_list (SEIRModel.initial_conditions seasonal_decay_model) = 1"
    and i3: "sum_list (SIRWithDemography.initial_conditions sir_disease_free_model) = 1"
    by (simp_all add: seir_decay_model_def seasonal_decay_model_def
          sir_disease_free_model_def)
  have E1: "integrates_exactly (samples seir_decay_curve) (seir_equations seir_decay_model)
     (SEIRModel.initial_conditions seir_decay_model) [0, 1, 2] seir_decay_curve"
    by (rule samples_integrates_exactly [OF T1])
      (simp_all add: seir_decay_model_def seir_decay_curve_def)
  have E2: "integrates_exactly (samples seasonal_decay_curve)
     (seir_seasonal_equations seasonal_decay_model)
     (SEIRModel.initial_conditions seasonal_decay_model) [0, 1, 2] seasonal_decay_curve"
    by (rule samples_integrates_exactly [OF T2])
      (simp_all add: seasonal_decay_model_def seasonal_decay_curve_def)
  have E3: "integrates_exactly (samples sir_disease_free_curve)
     (sir_demography_equations sir_disease_free_model)
     (SIRWithDemography.initial_conditions sir_disease_free_model) [0, 1, 2]
     sir_disease_free_curve"
    by (rule samples_integrates_exactly [OF T3])
      (simp_all add: sir_disease_free_model_def sir_disease_free_curve_def)
  note A = total_population_conserved
    [where seir = seir_decay_model and seasonal = seasonal_decay_model
       and sir = sir_disease_free_model
       and y = seir_decay_curve and ys = seasonal_decay_curve and yd = sir_disease_free_curve
       and a = 0 and b = 2 and ?t0.0 = 0 and ?t1.0 = 2 and grid = "[0, 1, 2]"
       and S' = "99/100" and I' = "1/100" and R' = 0 and t = 7]
  have d: "\<exists>d. sir_demography_equations sir_disease_free_model [99/100, 1/100, 0] 7 = Inr d \<and>
        sum_list d = 0"
    using A [where odeint = "samples seir_decay_curve"] by simp
  have c1: "sum_list (seir_decay_curve 2) = 1"
    and c2: "sum_list (seasonal_decay_curve 2) = 1"
    and c3: "sum_list (sir_disease_free_curve 2) = 1"
    using A [where odeint = "samples seir_decay_curve"] T1 [of 0 2] T2 [of 0 2] T3 [of 0 2]
      s1 s2 s3
    by simp_all
  have r1: "\<exists>seir' rows. SEIRModel_simulate (samples seir_decay_curve) seir_decay_model
        [0, 1, 2] = Inr seir' \<and>
      SEIRModel.results seir' = Some rows \<and> length rows = length [0, 1, 2 :: real] \<and>
      (\<forall>row \<in> set rows. sum_list row = 1)"
    using A [where odeint = "samples seir_decay_curve"] E1 i1 by blast
  have r2: "\<exists>seasonal' rows.
      SEIRModelWithSeasonality_simulate (samples seasonal_decay_curve) seasonal_decay_model
        [0, 1, 2] = Inr seasonal' \<and>
      SEIRModel.results seasonal' = Some rows \<and> length rows = length [0, 1, 2 :: real] \<and>
      (\<forall>row \<in> set rows. sum_list row = 1)"
    using A [where odeint = "samples seasonal_decay_curve"] E2 i2 by blast
  have r3: "\<exists>sir' rows.
      SIRWithDemography_simulate (samples sir_disease_free_curve) sir_disease_free_model
        [0, 1, 2] = Inr sir' \<and>
      SIRWithDemography.results sir' = Some rows \<and> length rows = length [0, 1, 2 :: real] \<and>
      (\<forall>row \<in> set rows. sum_list row = 1)"
    using A [where odeint = "samples sir_disease_free_curve"] E3 i3 by blast
  show ?thesis
    using T1 [of 0 2] T2 [of 0 2] T3 [of 0 2] s1 s2 s3 i1 i2 i3 E1 E2 E3 d c1 c2 c3 r1 r2 r3
    by simp
qed

text \<open>
  Counterexample to C6 as stated. In the double arithmetic that the code runs on, the model
  of the repository's example (beta = 0.3, gamma = 0.1, mu = 0.01) at the state
  [0.75, 0.25, 0], whose entries are doubles that sum to exactly 1, returns
  [-0.05374999999999999, 0.028749999999999994, 0.025]; these three doubles sum to
  2 powi (- 58), about 3.5e-18, and not to 0, both exactly and when added from left to right
  in double arithmetic as Python's \<^verbatim>\<open>sum\<close> does.
\<close>

theorem sir_derivative_sum_in_doubles:
  "to_double (3/4) = Some (3/4) \<and> to_double (1/4) = Some (1/4) \<and>
   (3/4 :: rat) + 1/4 + 0 = 1 \<and>
   double_sir_demography_equations (to_double (3/10)) (to_double (1/10)) (to_double (1/100))
     [to_double (3/4), to_double (1/4), to_double 0] (to_double 0) =
   Inr [Some (- 1936547839769313 / 36028797018963968),
        Some (8286623314361711 / 288230376151711744),
        Some (3602879701896397 / 144115188075855872)] \<and>
   (- 1936547839769313 / 36028797018963968 :: rat) + 8286623314361711 / 288230376151711744
     + 3602879701896397 / 144115188075855872 = 1 / 288230376151711744 \<and>
   foldl fadd (to_double 0)
     [Some (- 1936547839769313 / 36028797018963968),
      Some (8286623314361711 / 288230376151711744),
      Some (3602879701896397 / 144115188075855872)] = Some (1 / 288230376151711744)"
  by code_simp




end
